theory Spec2Isabelle
  imports Main "HOL-Library.Word" "HOL-Library.Monad_Syntax"
begin

unbundle bit_operations_syntax

section \<open>Lightweight PCAP: data model\<close>

text \<open>
  The development follows \<^verbatim>\<open>lpcap.go\<close> (the container: Create, Open, ReadPacket,
  WritePacket, Next, Close and the accessors) and the header file
  (\<^verbatim>\<open>unmarshalFileHeader\<close>, \<^verbatim>\<open>unmarshalPacketHeader\<close>). Go's \<^verbatim>\<open>uint8\<close>,
  \<^verbatim>\<open>uint16\<close>, \<^verbatim>\<open>uint32\<close> and \<^verbatim>\<open>int32\<close> are words of that width. The \<^verbatim>\<open>int64\<close>
  cursor and size and the \<^verbatim>\<open>int\<close> byte counts are \<open>int\<close>: they count bytes of one
  file and stay far below \<open>2 ^ 63\<close>. A nil pointer is \<open>None\<close>, a run-time panic is
  the left summand of the result. Byte slices that outlive a call or are shared between
  the caller and the buffer pool live in an explicit memory.
\<close>

type_synonym byte = "8 word"
type_synonym uint16 = "16 word"
type_synonym uint32 = "32 word"
type_synonym int32 = "32 word"

text \<open>
  The run-time panics: a nil pointer dereference, an index beyond the length of a slice,
  and a reslice \<^verbatim>\<open>b[:n]\<close> beyond the capacity.
\<close>

datatype panic = NilPointerDereference | IndexOutOfRange | SliceBoundsOutOfRange

text \<open>
  Go error values: \<^verbatim>\<open>errors.New(msg)\<close>, \<^verbatim>\<open>&ParseError{Offset, Err}\<close>, \<^verbatim>\<open>io.EOF\<close>,
  \<^verbatim>\<open>os.ErrClosed\<close>, a \<^verbatim>\<open>syscall.Errno\<close> and the \<^verbatim>\<open>&PathError{Op, Path, Err}\<close>
  in which \<^verbatim>\<open>os.File\<close> wraps what went wrong in the operation \<^verbatim>\<open>Op\<close> (the path is
  left out).
\<close>

datatype error =
    New string
  | ParseError int error
  | EOF
  | ErrClosed
  | Errno string
  | PathError string error

subsection \<open>Constants\<close>

definition MajorVer :: uint16 where "MajorVer = 1"
definition MinorVer :: uint16 where "MinorVer = 0"

definition lpcapmx :: uint16 where "lpcapmx = 0x4f3e"
definition minFileSize :: nat where "minFileSize = 14"
definition minPacketSize :: nat where "minPacketSize = 10"

text \<open>
  \<^verbatim>\<open>LinkTypeNull LinkType = 0\<close> is the first line of its const block (iota = 0),
  \<^verbatim>\<open>LinkTypeEthernet2 LinkType = 2 << iota\<close> the second (iota = 1), and the two
  names after it repeat the expression with iota = 2 and iota = 3.
\<close>

type_synonym LinkType = uint32

definition LinkTypeNull :: LinkType where "LinkTypeNull = 0"
definition LinkTypeEthernet2 :: LinkType where "LinkTypeEthernet2 = push_bit (1::nat) 2"
definition LinkTypeEthernet80211 :: LinkType where "LinkTypeEthernet80211 = push_bit (2::nat) 2"
definition LinkTypeFDDI :: LinkType where "LinkTypeFDDI = push_bit (3::nat) 2"

definition MaxSnapLength :: nat where "MaxSnapLength = 2 ^ 14 - 1"

text \<open>
  \<^verbatim>\<open>PacketTypeBroadcast = 2 << iota\<close> opens its const block (iota = 0). The header
  decoder names the same three constants \<^verbatim>\<open>PtypeBroadcast\<close>, \<^verbatim>\<open>PtypeUnicast\<close>,
  \<^verbatim>\<open>PtypeMulticast\<close>, declared by the same expression in the earlier revision of
  \<^verbatim>\<open>lpcap.go\<close>.
\<close>

definition PacketTypeBroadcast :: byte where "PacketTypeBroadcast = push_bit (0::nat) 2"
definition PacketTypeUnicast :: byte where "PacketTypeUnicast = push_bit (1::nat) 2"
definition PacketTypeMulticast :: byte where "PacketTypeMulticast = push_bit (2::nat) 2"

definition PtypeBroadcast :: byte where "PtypeBroadcast = push_bit (0::nat) 2"
definition PtypeUnicast :: byte where "PtypeUnicast = push_bit (1::nat) 2"
definition PtypeMulticast :: byte where "PtypeMulticast = push_bit (2::nat) 2"

text \<open>
  \<^verbatim>\<open>ErrOk ErrorCode = 0\<close> (iota = 0), \<^verbatim>\<open>ErrRead ErrorCode = 1 << iota\<close> (iota = 1)
  and the following names with iota = 2 .. 5.
\<close>

type_synonym ErrorCode = int

definition ErrOk :: ErrorCode where "ErrOk = 0"
definition ErrRead :: ErrorCode where "ErrRead = push_bit (1::nat) 1"
definition ErrWrite :: ErrorCode where "ErrWrite = push_bit (2::nat) 1"
definition ErrInvalidHeader :: ErrorCode where "ErrInvalidHeader = push_bit (3::nat) 1"
definition ErrSizeOverflow :: ErrorCode where "ErrSizeOverflow = push_bit (4::nat) 1"
definition ErrNoMorePacket :: ErrorCode where "ErrNoMorePacket = push_bit (5::nat) 1"

subsection \<open>Memory\<close>

text \<open>
  Byte slices share their arrays. The buffer that \<^verbatim>\<open>packetPool\<close> hands out is
  written by ReadPacket and by WritePacket, and ReadPacket hands it on to the caller as
  the payload of the packet. So memory is explicit: an array has an address, \<open>m a i\<close>
  is the byte at index \<open>i\<close> of the array at \<open>a\<close>, and a slice is an array, the
  index of its first byte and its length. \<open>bytes m s\<close> reads a slice, and
  \<open>mem_write m a k bs\<close> stores \<open>bs\<close> in the array at \<open>a\<close> from index \<open>k\<close>.
\<close>

type_synonym addr = nat
type_synonym mem = "addr \<Rightarrow> nat \<Rightarrow> byte"

record slice =
  s_arr :: addr
  s_off :: nat
  s_len :: nat

definition bytes :: "mem \<Rightarrow> slice \<Rightarrow> byte list" where
  "bytes m s = map (m (s_arr s)) [s_off s..<s_off s + s_len s]"

definition mem_write :: "mem \<Rightarrow> addr \<Rightarrow> nat \<Rightarrow> byte list \<Rightarrow> mem" where
  "mem_write m a k bs =
     m(a := (\<lambda>i. if k \<le> i \<and> i < k + length bs then bs ! (i - k) else m a i))"

subsection \<open>Structs\<close>

record fileHeader =
  mx :: uint16
  majorVer :: uint16
  minorVer :: uint16
  snapLen :: uint32
  link :: LinkType

text \<open>
  \<^verbatim>\<open>packetHeader\<close>: the source's fields \<^verbatim>\<open>len\<close> and \<^verbatim>\<open>p\<close> are \<open>hlen\<close> and
  \<open>hp\<close> here (\<open>len\<close> is also a field of the container).
\<close>

record packetHeader =
  ifindex :: byte
  ptype :: byte
  timestamp :: uint32
  hlen :: uint32
  hp :: "byte list"

text \<open>
  The payload \<^verbatim>\<open>Data []byte\<close> of a packet is a slice of memory (see below), not a
  value: the caller's array, or the pooled array that ReadPacket filled.
\<close>

record Packet =
  Index :: byte
  PacketType :: byte
  Timestamp :: uint32
  Len :: uint32
  Data :: slice

subsection \<open>The backing file\<close>

text \<open>
  The container reads and writes an \<^verbatim>\<open>*os.File\<close>. The file is its bytes, the position
  of the next sequential write, whether it was opened for writing and whether it has been
  closed. A path names no file, a file the process may not open, or a regular file.
\<close>

record File =
  contents :: "byte list"
  pos :: nat
  writable :: bool
  fclosed :: bool

datatype entry = NoEntry | NoAccess | Regular "byte list"

text \<open>
  \<^verbatim>\<open>ReadAt(b, off)\<close> with \<open>k = len(b)\<close>: the bytes read, and \<^verbatim>\<open>io.EOF\<close> when fewer than
  \<open>k\<close> were there. A negative offset is refused first; an empty buffer then reads
  nothing and reports no error, also on a closed file; a closed file fails any other
  read with \<^verbatim>\<open>os.ErrClosed\<close> wrapped in a \<^verbatim>\<open>PathError\<close>.
\<close>

definition file_ReadAt :: "File \<Rightarrow> nat \<Rightarrow> int \<Rightarrow> byte list \<times> error option" where
  "file_ReadAt f k off =
     (if off < 0 then ([], Some (PathError ''readat'' (New ''negative offset'')))
      else if k = 0 then ([], None)
      else if fclosed f then ([], Some (PathError ''read'' ErrClosed))
      else let d = take k (drop (nat off) (contents f))
           in if length d < k then (d, Some EOF) else (d, None))"

text \<open>\<^verbatim>\<open>Write(b)\<close> stores \<open>b\<close> at the file position and advances it.\<close>

definition file_Write :: "File \<Rightarrow> byte list \<Rightarrow> File \<times> int \<times> error option" where
  "file_Write f b =
     (if fclosed f then (f, 0, Some (PathError ''write'' ErrClosed))
      else if \<not> writable f
      then (f, 0, Some (PathError ''write'' (Errno ''bad file descriptor'')))
      else let c = contents f @ replicate (pos f - length (contents f)) 0
           in (f\<lparr>contents := take (pos f) c @ b @ drop (pos f + length b) c,
                 pos := pos f + length b\<rparr>,
               int (length b), None))"

definition file_Close :: "File \<Rightarrow> File \<times> error option" where
  "file_Close f =
     (if fclosed f then (f, Some (PathError ''close'' ErrClosed))
      else (f\<lparr>fclosed := True\<rparr>, None))"

subsection \<open>The container\<close>

record PCAP =
  h :: "fileHeader option"
  rd :: File
  len :: int32
  offset :: int
  isClosed :: bool
  lasterr :: ErrorCode
  fsize :: int

section \<open>encoding/binary, little endian\<close>

text \<open>
  \<^verbatim>\<open>binary.LittleEndian.Uint16(b)\<close> and \<^verbatim>\<open>Uint32(b)\<close> panic on a slice that is too
  short; \<open>None\<close> is that panic. \<^verbatim>\<open>Uint16(b[k:])\<close> is \<open>Uint16 (drop k b)\<close>: the
  slice expression panics when \<open>k\<close> is beyond the end, and so does the read of the
  empty list.
\<close>

definition Uint16 :: "byte list \<Rightarrow> uint16 option" where
  "Uint16 b =
     (if length b < 2 then None
      else Some (ucast (b ! 0) OR push_bit 8 (ucast (b ! 1))))"

definition Uint32 :: "byte list \<Rightarrow> uint32 option" where
  "Uint32 b =
     (if length b < 4 then None
      else Some (ucast (b ! 0) OR push_bit 8 (ucast (b ! 1))
                 OR push_bit 16 (ucast (b ! 2)) OR push_bit 24 (ucast (b ! 3))))"

text \<open>
  \<^verbatim>\<open>PutUint16(b[k:], v)\<close> and \<^verbatim>\<open>PutUint32(b[k:], v)\<close> write through the slice into
  the array of \<open>b\<close>; the result is the updated \<open>b\<close>, \<open>None\<close> the panic.
\<close>

definition PutUint16 :: "byte list \<Rightarrow> nat \<Rightarrow> uint16 \<Rightarrow> byte list option" where
  "PutUint16 b k v =
     (if length b < k + 2 then None
      else Some (b[k := ucast v, k + 1 := ucast (drop_bit 8 v)]))"

definition PutUint32 :: "byte list \<Rightarrow> nat \<Rightarrow> uint32 \<Rightarrow> byte list option" where
  "PutUint32 b k v =
     (if length b < k + 4 then None
      else Some (b[k := ucast v, k + 1 := ucast (drop_bit 8 v),
                   k + 2 := ucast (drop_bit 16 v), k + 3 := ucast (drop_bit 24 v)]))"

text \<open>\<^verbatim>\<open>b[i] = v\<close>.\<close>

definition store_byte :: "byte list \<Rightarrow> nat \<Rightarrow> byte \<Rightarrow> byte list option" where
  "store_byte b i v = (if i < length b then Some (b[i := v]) else None)"

text \<open>\<^verbatim>\<open>copy(b[k:], src)\<close> with \<open>k \<le> len(b)\<close>: as many bytes as fit.\<close>

definition copy_at :: "byte list \<Rightarrow> nat \<Rightarrow> byte list \<Rightarrow> byte list" where
  "copy_at b k src =
     take k b @ take (length b - k) src @ drop (k + min (length b - k) (length src)) b"

section \<open>Header decoders\<close>

definition unmarshalFileHeader ::
  "byte list \<Rightarrow> panic + (fileHeader option \<times> int \<times> error option)" where
  "unmarshalFileHeader b =
     (let erroffset = (0::int);
          h0 = \<lparr>mx = 0, majorVer = 0, minorVer = 0, snapLen = 0, link = 0\<rparr>
      in case Uint16 b of
           None \<Rightarrow> Inl IndexOutOfRange
         | Some m \<Rightarrow>
      if m \<noteq> lpcapmx
      then Inr (None, erroffset, Some (New ''cannot parse PCAP file, invalid magix number''))
      else let h1 = h0\<lparr>mx := m\<rparr>
      in case Uint16 (drop 2 b) of
           None \<Rightarrow> Inl IndexOutOfRange
         | Some mj \<Rightarrow>
      let h2 = h1\<lparr>majorVer := mj\<rparr>
      in if majorVer h2 = 0
      then Inr (None, erroffset + 2,
                Some (New ''cannot parse PCAP file, invalid major version (is nil)''))
      else case Uint16 (drop 4 b) of
           None \<Rightarrow> Inl IndexOutOfRange
         | Some mn \<Rightarrow>
      let h3 = h2\<lparr>minorVer := mn\<rparr>
      in if minorVer h3 = 0
      then Inr (None, erroffset + 4,
                Some (New ''cannot parse PCAP file, invalid minor version (is nil)''))
      else case Uint32 (drop 6 b) of
           None \<Rightarrow> Inl IndexOutOfRange
         | Some sl \<Rightarrow>
      let h4 = h3\<lparr>snapLen := sl\<rparr>
      in case Uint32 (drop 10 b) of
           None \<Rightarrow> Inl IndexOutOfRange
         | Some linkType \<Rightarrow>
      if linkType \<noteq> LinkTypeEthernet2 \<and> linkType \<noteq> LinkTypeEthernet80211
      then Inr (None, erroffset + 10,
                Some (New ''cannot parse PCAP file, link type is undefined''))
      else Inr (Some h4, 0, None))"

definition unmarshalPacketHeader ::
  "byte list \<Rightarrow> uint32 \<Rightarrow> panic + (packetHeader option \<times> int \<times> error option)" where
  "unmarshalPacketHeader b maxLen =
     (let erroffset = (0::int);
          h0 = \<lparr>ifindex = 0, ptype = 0, timestamp = 0, hlen = 0, hp = []\<rparr>
      in if length b < 2 then Inl IndexOutOfRange
      else let i = b ! 0; pt = b ! 1
      in if pt \<noteq> PtypeBroadcast \<and> pt \<noteq> PtypeUnicast \<and> pt \<noteq> PtypeMulticast
      then Inr (None, erroffset, Some (New ''undefined packet type''))
      else case Uint32 (drop 2 b) of
           None \<Rightarrow> Inl IndexOutOfRange
         | Some t \<Rightarrow>
      if t = 0
      then Inr (None, erroffset + 2, Some (New ''invalid timestamp value''))
      else case Uint32 (drop 6 b) of
           None \<Rightarrow> Inl IndexOutOfRange
         | Some l \<Rightarrow>
      if l > maxLen
      then Inr (None, erroffset + 6, Some (New ''snap length of packet is overflow''))
      else Inr (Some (h0\<lparr>ifindex := i, ptype := pt, timestamp := t, hlen := l\<rparr>), 0, None))"

section \<open>The container's operations\<close>

text \<open>
  \<^verbatim>\<open>packetPool.Get()\<close> hands out a slice over an array of \<open>MaxSnapLength\<close> bytes:
  an array that an earlier call put back, holding what that call left there, or a new
  one. ReadPacket and WritePacket take the address \<open>a\<close> of that array as an argument;
  \<open>lease a n\<close> is the slice \<^verbatim>\<open>b[:n]\<close> of the buffer handed out. Reslicing beyond
  the capacity panics. \<^verbatim>\<open>packetPool.Put(b)\<close> returns the array to the pool and changes
  neither memory nor the container.
\<close>

definition lease :: "addr \<Rightarrow> nat \<Rightarrow> slice" where
  "lease a n = \<lparr>s_arr = a, s_off = 0, s_len = n\<rparr>"

text \<open>
  \<^verbatim>\<open>Create(path)\<close>: \<^verbatim>\<open>os.OpenFile(path, O_RDWR|O_CREATE)\<close> makes the file when the
  path names none and opens it as it is otherwise, at position 0.
\<close>

definition Create :: "entry \<Rightarrow> panic + (PCAP option \<times> error option)" where
  "Create path =
     (case path of
        NoAccess \<Rightarrow> Inr (None, Some (PathError ''open'' (Errno ''permission denied'')))
      | _ \<Rightarrow>
        let f = \<lparr>contents = (case path of Regular c \<Rightarrow> c | _ \<Rightarrow> []),
                 pos = 0, writable = True, fclosed = False\<rparr>;
            hd = \<lparr>mx = lpcapmx, majorVer = MajorVer, minorVer = MinorVer,
                  snapLen = of_nat MaxSnapLength, link = LinkTypeEthernet2\<rparr>;
            p = \<lparr>h = Some hd, rd = f, len = 0, offset = 0, isClosed = False,
                 lasterr = ErrOk, fsize = 0\<rparr>
        in case do {
                  b \<leftarrow> PutUint16 (replicate minFileSize 0) 0 (mx hd);
                  b \<leftarrow> PutUint16 b 2 (majorVer hd);
                  b \<leftarrow> PutUint16 b 4 (minorVer hd);
                  b \<leftarrow> PutUint32 b 6 (snapLen hd);
                  PutUint32 b 10 (link hd)
                } of
             None \<Rightarrow> Inl IndexOutOfRange
           | Some b \<Rightarrow>
             (case file_Write f b of
                (f', n, Some e) \<Rightarrow> Inr (None, Some e)
              | (f', n, None) \<Rightarrow>
                  Inr (Some (p\<lparr>rd := f', offset := offset p + n,
                               fsize := int minFileSize\<rparr>), None)))"

text \<open>\<^verbatim>\<open>Open(path)\<close>: \<^verbatim>\<open>os.Open\<close> opens the file read-only.\<close>

definition Open :: "entry \<Rightarrow> panic + (PCAP option \<times> error option)" where
  "Open path =
     (case path of
        NoEntry \<Rightarrow>
          Inr (None, Some (PathError ''open'' (Errno ''no such file or directory'')))
      | NoAccess \<Rightarrow> Inr (None, Some (PathError ''open'' (Errno ''permission denied'')))
      | Regular c \<Rightarrow>
        let f = \<lparr>contents = c, pos = 0, writable = False, fclosed = False\<rparr>;
            fileSize = int (length (contents f))
        in if fileSize < int minFileSize
           then Inr (None, Some (New ''file length too small, cannot read file header''))
           else let b = replicate minFileSize 0
                in case file_ReadAt f (length b) 0 of
                     (d, Some e) \<Rightarrow> Inr (None, Some e)
                   | (d, None) \<Rightarrow>
                     let b = d @ drop (length d) b; n = int (length d)
                     in case unmarshalFileHeader b of
                          Inl pn \<Rightarrow> Inl pn
                        | Inr (header, erroffset, Some e) \<Rightarrow>
                            Inr (None, Some (ParseError erroffset e))
                        | Inr (header, erroffset, None) \<Rightarrow>
                            Inr (Some \<lparr>h = header, rd = f, len = 0, offset = n,
                                       isClosed = False, lasterr = 0,
                                       fsize = fileSize\<rparr>, None))"

text \<open>
  \<^verbatim>\<open>ReadPacket(p)\<close>: the result carries memory, the container, the caller's packet
  (assigned on success only), the byte count and the error. \<^verbatim>\<open>ReadAt\<close> stores the
  bytes it read in the leased array, also when it then reports an error. The payload
  of the packet is the leased slice itself.
\<close>

definition ReadPacket ::
  "mem \<Rightarrow> addr \<Rightarrow> Packet \<Rightarrow> PCAP
     \<Rightarrow> panic + (mem \<times> PCAP \<times> Packet \<times> int \<times> error option)" where
  "ReadPacket m a p pcap =
     (let b = lease a minPacketSize
      in case file_ReadAt (rd pcap) (s_len b) (offset pcap) of
           (d, Some e) \<Rightarrow>
             Inr (mem_write m a 0 d,
                  pcap\<lparr>lasterr := (if e = EOF then ErrNoMorePacket else ErrRead)\<rparr>,
                  p, 0, Some e)
         | (d, None) \<Rightarrow>
      let m = mem_write m a 0 d;
          pcap = pcap\<lparr>offset := offset pcap + int (length d)\<rparr>
      in case h pcap of
           None \<Rightarrow> Inl NilPointerDereference
         | Some fh \<Rightarrow>
      case unmarshalPacketHeader (bytes m b) (snapLen fh) of
           Inl pn \<Rightarrow> Inl pn
         | Inr (ph, erroffset, Some e) \<Rightarrow>
             Inr (m, pcap\<lparr>lasterr := ErrInvalidHeader\<rparr>, p, 0,
                  Some (ParseError (erroffset + offset pcap) e))
         | Inr (None, erroffset, None) \<Rightarrow> Inl NilPointerDereference
         | Inr (Some ph, erroffset, None) \<Rightarrow>
      if MaxSnapLength < unat (hlen ph) then Inl SliceBoundsOutOfRange
      else let b = lease a (unat (hlen ph))
      in case file_ReadAt (rd pcap) (s_len b) (offset pcap) of
           (d, Some e) \<Rightarrow>
             Inr (mem_write m a 0 d,
                  pcap\<lparr>lasterr := (if e = EOF then ErrNoMorePacket else ErrRead)\<rparr>,
                  p, 0, Some e)
         | (d, None) \<Rightarrow>
      Inr (mem_write m a 0 d,
           pcap\<lparr>len := len pcap + 1, offset := offset pcap + int (length d)\<rparr>,
           \<lparr>Index = ifindex ph, PacketType = ptype ph, Timestamp = timestamp ph,
            Len = hlen ph, Data = b\<rparr>,
           int minPacketSize + int (length d), None))"

text \<open>
  \<^verbatim>\<open>WritePacket(p)\<close>. \<^verbatim>\<open>minPacketSize+p.Len\<close> is a \<^verbatim>\<open>uint32\<close> sum and wraps. The
  ten header bytes are stored through \<open>b\<close> in the leased array first; only then
  \<^verbatim>\<open>copy(b[offset:], p.Data)\<close> reads the payload, from memory as it is by then, and
  stores as much of it as fits behind the header (\<^verbatim>\<open>copy\<close> reads all it copies before
  it overwrites it). The result carries memory as the call leaves it.
\<close>

definition WritePacket ::
  "mem \<Rightarrow> addr \<Rightarrow> Packet \<Rightarrow> PCAP \<Rightarrow> panic + (mem \<times> PCAP \<times> int \<times> error option)" where
  "WritePacket m a p pcap =
     (case h pcap of
        None \<Rightarrow> Inl NilPointerDereference
      | Some fh \<Rightarrow>
      let isOverflow = (int (s_len (Data p)) + int minPacketSize > uint (snapLen fh))
      in if isOverflow
      then Inr (m, pcap\<lparr>lasterr := ErrSizeOverflow\<rparr>, 0,
                Some (New ''cannot write packet to PCAP, because length of packet greater than snap length''))
      else let n = unat (of_nat minPacketSize + Len p)
      in if MaxSnapLength < n then Inl SliceBoundsOutOfRange
      else case do {
                  b \<leftarrow> store_byte (bytes m (lease a n)) 0 (Index p);
                  b \<leftarrow> store_byte b 1 (PacketType p);
                  b \<leftarrow> PutUint32 b 2 (Timestamp p);
                  PutUint32 b 6 (Len p)
                } of
             None \<Rightarrow> Inl IndexOutOfRange
           | Some b \<Rightarrow>
      let m = mem_write m a 0 b;
          b = copy_at b 10 (bytes m (Data p));
          m = mem_write m a 0 b
      in case file_Write (rd pcap) b of
           (f', n, Some e) \<Rightarrow>
             Inr (m, pcap\<lparr>rd := f', lasterr := ErrWrite\<rparr>, 0, Some e)
         | (f', n, None) \<Rightarrow>
             Inr (m, pcap\<lparr>rd := f', fsize := fsize pcap + n\<rparr>, n, None))"

definition Next :: "PCAP \<Rightarrow> bool" where
  "Next pcap = (offset pcap < fsize pcap)"

definition Close :: "PCAP \<Rightarrow> PCAP \<times> error option" where
  "Close pcap =
     (if isClosed pcap then (pcap, Some (New ''file is already closed''))
      else let pcap = pcap\<lparr>h := None, len := 0, offset := 0, isClosed := True,
                           lasterr := ErrOk, fsize := 0\<rparr>
           in case file_Close (rd pcap) of (f', err) \<Rightarrow> (pcap\<lparr>rd := f'\<rparr>, err))"

text \<open>The accessor \<^verbatim>\<open>Len()\<close> reads the \<^verbatim>\<open>int32\<close> counter as a signed number.\<close>

definition PCAP_Len :: "PCAP \<Rightarrow> int" where
  "PCAP_Len pcap = sint (len pcap)"

definition LastError :: "PCAP \<Rightarrow> ErrorCode" where
  "LastError pcap = lasterr pcap"

section \<open>Reference values\<close>

text \<open>
  The little-endian value of the two, respectively four, bytes of \<open>b\<close> from index
  \<open>k\<close>, as a number: the least significant byte comes first.
\<close>

definition le16 :: "byte list \<Rightarrow> nat \<Rightarrow> uint16" where
  "le16 b k = word_of_nat (unat (b ! k) + 2 ^ 8 * unat (b ! (k + 1)))"

definition le32 :: "byte list \<Rightarrow> nat \<Rightarrow> uint32" where
  "le32 b k = word_of_nat (unat (b ! k) + 2 ^ 8 * unat (b ! (k + 1))
                + 2 ^ 16 * unat (b ! (k + 2)) + 2 ^ 24 * unat (b ! (k + 3)))"

text \<open>
  Memory in which every array holds zero bytes, as \<^verbatim>\<open>make\<close> leaves a new array, that
  of \<^verbatim>\<open>packetPool.New\<close> included.
\<close>

definition zero_mem :: mem where
  "zero_mem = (\<lambda>a i. 0)"

text \<open>The container that \<^verbatim>\<open>Create\<close> returns for a path that named no file.\<close>

definition created :: PCAP where
  "created =
     \<lparr>h = Some \<lparr>mx = 0x4f3e, majorVer = 1, minorVer = 0, snapLen = 16383, link = 4\<rparr>,
      rd = \<lparr>contents = [0x3e, 0x4f, 1, 0, 0, 0, 0xff, 0x3f, 0, 0, 4, 0, 0, 0],
            pos = 14, writable = True, fclosed = False\<rparr>,
      len = 0, offset = 14, isClosed = False, lasterr = 0, fsize = 14\<rparr>"

text \<open>
  The write loop of the benchmarks: one \<^verbatim>\<open>WritePacket\<close> per packet, each with the
  array the pool hands out for it, given up at the first write that fails.
\<close>

fun WritePackets :: "mem \<Rightarrow> (addr \<times> Packet) list \<Rightarrow> PCAP \<Rightarrow> (mem \<times> PCAP) option" where
  "WritePackets m [] pcap = Some (m, pcap)"
| "WritePackets m ((a, p) # ps) pcap =
     (case WritePacket m a p pcap of
        Inr (m', pcap', n, None) \<Rightarrow> WritePackets m' ps pcap'
      | _ \<Rightarrow> None)"


section \<open>Constants and byte order\<close>

lemmas const_defs =
  MajorVer_def MinorVer_def lpcapmx_def minFileSize_def minPacketSize_def
  LinkTypeNull_def LinkTypeEthernet2_def LinkTypeEthernet80211_def LinkTypeFDDI_def
  MaxSnapLength_def PacketTypeBroadcast_def PacketTypeUnicast_def PacketTypeMulticast_def
  PtypeBroadcast_def PtypeUnicast_def PtypeMulticast_def
  ErrOk_def ErrRead_def ErrWrite_def ErrInvalidHeader_def ErrSizeOverflow_def
  ErrNoMorePacket_def

lemma Uint16_value: "Uint16 [a, b] = Some (word_of_nat (unat a + 2 ^ 8 * unat b))"
proof -
  have "(ucast a :: uint16) OR push_bit 8 (ucast b) = ucast a + push_bit 8 (ucast b)"
    by (rule disjunctive_add_eq_or [symmetric], rule bit_word_eqI)
       (auto simp: bit_simps dest: bit_imp_le_length)
  then show ?thesis by (simp add: Uint16_def push_bit_eq_mult)
qed

lemma Uint32_value:
  "Uint32 [a, b, c, d] =
     Some (word_of_nat (unat a + 2 ^ 8 * unat b + 2 ^ 16 * unat c + 2 ^ 24 * unat d))"
proof -
  let ?A = "ucast a :: uint32" and ?B = "push_bit 8 (ucast b) :: uint32"
  and ?C = "push_bit 16 (ucast c) :: uint32" and ?D = "push_bit 24 (ucast d) :: uint32"
  have 1: "?A OR ?B = ?A + ?B"
    by (rule disjunctive_add_eq_or [symmetric], rule bit_word_eqI)
       (auto simp: bit_simps dest: bit_imp_le_length)
  have 2: "(?A OR ?B) OR ?C = (?A OR ?B) + ?C"
    by (rule disjunctive_add_eq_or [symmetric], rule bit_word_eqI)
       (auto simp: bit_simps dest: bit_imp_le_length)
  have 3: "((?A OR ?B) OR ?C) OR ?D = ((?A OR ?B) OR ?C) + ?D"
    by (rule disjunctive_add_eq_or [symmetric], rule bit_word_eqI)
       (auto simp: bit_simps dest: bit_imp_le_length)
  have "?A OR ?B OR ?C OR ?D = ((?A OR ?B) OR ?C) OR ?D"
    by (simp only: or.assoc)
  also have "\<dots> = ((?A OR ?B) OR ?C) + ?D" by (rule 3)
  also have "\<dots> = (?A OR ?B) + ?C + ?D" by (simp only: 2)
  also have "\<dots> = ?A + ?B + ?C + ?D" by (simp only: 1)
  also have "\<dots> = word_of_nat (unat a + 2 ^ 8 * unat b + 2 ^ 16 * unat c + 2 ^ 24 * unat d)"
    by (simp add: push_bit_eq_mult)
  finally show ?thesis by (simp add: Uint32_def)
qed

lemma Uint16_drop: "k + 2 \<le> length b \<Longrightarrow> Uint16 (drop k b) = Some (le16 b k)"
proof -
  assume k: "k + 2 \<le> length b"
  have "Uint16 (drop k b) = Uint16 [b ! k, b ! (k + 1)]"
    using k by (simp add: Uint16_def)
  then show ?thesis by (simp add: Uint16_value le16_def)
qed

lemma Uint32_drop: "k + 4 \<le> length b \<Longrightarrow> Uint32 (drop k b) = Some (le32 b k)"
proof -
  assume k: "k + 4 \<le> length b"
  have "Uint32 (drop k b) = Uint32 [b ! k, b ! (k + 1), b ! (k + 2), b ! (k + 3)]"
    using k by (simp add: Uint32_def)
  then show ?thesis by (simp add: Uint32_value le32_def)
qed


section \<open>The header decoders on inputs of the right length\<close>

lemma unmarshalPacketHeader_10:
  assumes "length b = 10"
  shows "unmarshalPacketHeader b maxLen =
    Inr (if b ! 1 \<noteq> PtypeBroadcast \<and> b ! 1 \<noteq> PtypeUnicast \<and> b ! 1 \<noteq> PtypeMulticast
         then (None, 0, Some (New ''undefined packet type''))
         else if le32 b 2 = 0
         then (None, 2, Some (New ''invalid timestamp value''))
         else if maxLen < le32 b 6
         then (None, 6, Some (New ''snap length of packet is overflow''))
         else (Some \<lparr>ifindex = b ! 0, ptype = b ! 1, timestamp = le32 b 2,
                      hlen = le32 b 6, hp = []\<rparr>, 0, None))"
  using assms by (simp add: unmarshalPacketHeader_def Uint32_drop)

lemma unmarshalFileHeader_14:
  assumes "length b = 14"
  shows "unmarshalFileHeader b =
    Inr (if le16 b 0 \<noteq> lpcapmx
         then (None, 0, Some (New ''cannot parse PCAP file, invalid magix number''))
         else if le16 b 2 = 0
         then (None, 2, Some (New ''cannot parse PCAP file, invalid major version (is nil)''))
         else if le16 b 4 = 0
         then (None, 4, Some (New ''cannot parse PCAP file, invalid minor version (is nil)''))
         else if le32 b 10 \<noteq> LinkTypeEthernet2 \<and> le32 b 10 \<noteq> LinkTypeEthernet80211
         then (None, 10, Some (New ''cannot parse PCAP file, link type is undefined''))
         else (Some \<lparr>mx = le16 b 0, majorVer = le16 b 2, minorVer = le16 b 4,
                      snapLen = le32 b 6, link = 0\<rparr>, 0, None))"
  using assms Uint16_drop [of 0 b]
  by (simp add: unmarshalFileHeader_def Uint16_drop Uint32_drop)

lemma replicate_14: "replicate 14 x = [x, x, x, x, x, x, x, x, x, x, x, x, x, x]"
  by (simp add: numeral_eq_Suc)

lemma Create_NoEntry: "Create NoEntry = Inr (Some created, None)"
  by (simp add: Create_def created_def PutUint16_def PutUint32_def file_Write_def
      const_defs replicate_14)

section \<open>The packet-header decoder\<close>

text \<open>
  Claim C8. On every 10-byte input and every bound \<open>maxLen\<close> the packet-header decoder
  fails with offset 0 when the type byte is none of Broadcast, Unicast, Multicast;
  otherwise with offset 2 when the 32-bit timestamp is zero; otherwise with offset 6 when
  the declared length exceeds \<open>maxLen\<close>; otherwise it succeeds with offset 0 and a header
  that carries the decoded interface index, type, timestamp and length.
\<close>

theorem unmarshalPacketHeader_decodes:
  assumes "length b = 10"
  shows "unmarshalPacketHeader b maxLen =
    Inr (if b ! 1 \<noteq> PtypeBroadcast \<and> b ! 1 \<noteq> PtypeUnicast \<and> b ! 1 \<noteq> PtypeMulticast
         then (None, 0, Some (New ''undefined packet type''))
         else if le32 b 2 = 0
         then (None, 2, Some (New ''invalid timestamp value''))
         else if maxLen < le32 b 6
         then (None, 6, Some (New ''snap length of packet is overflow''))
         else (Some \<lparr>ifindex = b ! 0, ptype = b ! 1, timestamp = le32 b 2,
                      hlen = le32 b 6, hp = []\<rparr>, 0, None))"
  using assms by (rule unmarshalPacketHeader_10)

theorem unmarshalPacketHeader_decodes_witness:
  "length [4, 2, 7, 0, 0, 0, 3, 1, 0, 0 :: byte] = 10 \<and>
   unmarshalPacketHeader [4, 2, 7, 0, 0, 0, 3, 1, 0, 0] 16383 =
     Inr (Some \<lparr>ifindex = 4, ptype = 2, timestamp = 7, hlen = 259, hp = []\<rparr>, 0, None) \<and>
   unmarshalPacketHeader [4, 2, 7, 0, 0, 0, 3, 1, 0, 0] 258 =
     Inr (None, 6, Some (New ''snap length of packet is overflow'')) \<and>
   unmarshalPacketHeader [4, 2, 0, 0, 0, 0, 3, 1, 0, 0] 258 =
     Inr (None, 2, Some (New ''invalid timestamp value'')) \<and>
   unmarshalPacketHeader [4, 3, 0, 0, 0, 0, 3, 1, 0, 0] 258 =
     Inr (None, 0, Some (New ''undefined packet type''))"
  using unmarshalPacketHeader_decodes [of "[4, 2, 7, 0, 0, 0, 3, 1, 0, 0]" 16383]
    unmarshalPacketHeader_decodes [of "[4, 2, 7, 0, 0, 0, 3, 1, 0, 0]" 258]
    unmarshalPacketHeader_decodes [of "[4, 2, 0, 0, 0, 0, 3, 1, 0, 0]" 258]
    unmarshalPacketHeader_decodes [of "[4, 3, 0, 0, 0, 0, 3, 1, 0, 0]" 258]
  by (simp add: le32_def const_defs)

section \<open>The file-header decoder\<close>

text \<open>
  Claim C9. The file-header decoder never rejects an input for its snap-length field:
  a 14-byte input with the magic number, nonzero versions and an accepted link type
  decodes successfully whatever its snap-length word is, zero included, and the header
  carries that word.
\<close>

theorem unmarshalFileHeader_ignores_snapLen:
  assumes "length b = 14"
    and "le16 b 0 = lpcapmx"
    and "le16 b 2 \<noteq> 0"
    and "le16 b 4 \<noteq> 0"
    and "le32 b 10 = LinkTypeEthernet2 \<or> le32 b 10 = LinkTypeEthernet80211"
  shows "\<exists>fh. unmarshalFileHeader b = Inr (Some fh, 0, None) \<and> snapLen fh = le32 b 6"
  using assms by (auto simp add: unmarshalFileHeader_14)

theorem unmarshalFileHeader_ignores_snapLen_witness:
  "length [0x3e, 0x4f, 1, 0, 1, 0, 0, 0, 0, 0, 8, 0, 0, 0 :: byte] = 14 \<and>
   le32 [0x3e, 0x4f, 1, 0, 1, 0, 0, 0, 0, 0, 8, 0, 0, 0] 6 = 0 \<and>
   (\<exists>fh. unmarshalFileHeader [0x3e, 0x4f, 1, 0, 1, 0, 0, 0, 0, 0, 8, 0, 0, 0]
            = Inr (Some fh, 0, None) \<and> snapLen fh = 0)"
  using unmarshalFileHeader_ignores_snapLen [of "[0x3e, 0x4f, 1, 0, 1, 0, 0, 0, 0, 0, 8, 0, 0, 0]"]
  by (simp add: le32_def le16_def const_defs)

text \<open>
  Claim C7 says that a successful decode returns a header whose fields equal the decoded
  little-endian values. The decoder reads the link-type word into a local variable,
  checks it and never stores it: whenever a 14-byte input decodes successfully, the
  header's link field is the zero value, and the link word of the input, which passed
  the check, differs from it.
\<close>

theorem unmarshalFileHeader_loses_link:
  assumes "length b = 14"
    and "unmarshalFileHeader b = Inr (Some fh, off, None)"
  shows "link fh = 0 \<and> le32 b 10 \<noteq> link fh"
  using assms
  by (auto simp add: unmarshalFileHeader_14 LinkTypeEthernet2_def LinkTypeEthernet80211_def
      split: if_splits)

theorem unmarshalFileHeader_loses_link_witness:
  "length [0x3e, 0x4f, 1, 0, 1, 0, 0xff, 0x3f, 0, 0, 4, 0, 0, 0 :: byte] = 14 \<and>
   unmarshalFileHeader [0x3e, 0x4f, 1, 0, 1, 0, 0xff, 0x3f, 0, 0, 4, 0, 0, 0] =
     Inr (Some \<lparr>mx = 0x4f3e, majorVer = 1, minorVer = 1, snapLen = 16383, link = 0\<rparr>, 0, None) \<and>
   le32 [0x3e, 0x4f, 1, 0, 1, 0, 0xff, 0x3f, 0, 0, 4, 0, 0, 0] 10 = 4 \<and>
   link \<lparr>mx = 0x4f3e, majorVer = 1, minorVer = 1, snapLen = 16383, link = 0\<rparr> = 0"
proof -
  have e: "unmarshalFileHeader [0x3e, 0x4f, 1, 0, 1, 0, 0xff, 0x3f, 0, 0, 4, 0, 0, 0] =
     Inr (Some \<lparr>mx = 0x4f3e, majorVer = 1, minorVer = 1, snapLen = 16383, link = 0\<rparr>, 0, None)"
    by (simp add: unmarshalFileHeader_14 le32_def le16_def const_defs)
  have l: "length [0x3e, 0x4f, 1, 0, 1, 0, 0xff, 0x3f, 0, 0, 4, 0, 0, 0 :: byte] = 14"
    by simp
  show ?thesis
    using unmarshalFileHeader_loses_link [OF l e] e by (simp add: le32_def)
qed

section \<open>Link-type values\<close>

text \<open>
  Claim C1 as stated (Ethernet2 = 2, Ethernet80211 = 4, FDDI = 8) fails: the three
  constants have other values, the header that Create writes does not carry the link
  word 2, and the decoder rejects a header whose link word is 2.
\<close>

theorem LinkType_spec_values_counterexample:
  "LinkTypeEthernet2 \<noteq> 2 \<and> LinkTypeEthernet80211 \<noteq> 4 \<and> LinkTypeFDDI \<noteq> 8 \<and>
   Create NoEntry = Inr (Some created, None) \<and>
   le32 (contents (rd created)) 10 \<noteq> 2 \<and>
   unmarshalFileHeader [0x3e, 0x4f, 1, 0, 1, 0, 0xff, 0x3f, 0, 0, 2, 0, 0, 0] =
     Inr (None, 10, Some (New ''cannot parse PCAP file, link type is undefined''))"
  by (simp add: Create_NoEntry unmarshalFileHeader_14 le32_def le16_def const_defs
      created_def)

text \<open>
  Claim C1, amended. The link-type constants are Null = 0, Ethernet2 = 4,
  Ethernet80211 = 8, FDDI = 16. The header that Create writes carries the link word 4,
  and every 14-byte input that the file-header decoder accepts carries the link word
  4 or 8.
\<close>

theorem LinkType_code_values:
  assumes "Create path = Inr (Some pcap, None)"
    and "length b = 14"
    and "unmarshalFileHeader b = Inr (Some fh, off, None)"
  shows "LinkTypeNull = 0 \<and> LinkTypeEthernet2 = 4 \<and> LinkTypeEthernet80211 = 8 \<and>
         LinkTypeFDDI = 16 \<and>
         le32 (contents (rd pcap)) 10 = 4 \<and>
         (le32 b 10 = 4 \<or> le32 b 10 = 8)"
proof -
  have c: "LinkTypeNull = 0 \<and> LinkTypeEthernet2 = 4 \<and> LinkTypeEthernet80211 = 8 \<and>
         LinkTypeFDDI = 16"
    by (simp add: const_defs)
  have d: "le32 b 10 = 4 \<or> le32 b 10 = 8"
    using assms(2,3) c by (auto simp add: unmarshalFileHeader_14 split: if_splits)
  have w: "le32 (contents (rd pcap)) 10 = 4"
  proof (cases path)
    case NoEntry
    then have "pcap = created" using assms(1) by (simp add: Create_NoEntry)
    then show ?thesis by (simp add: created_def le32_def)
  next
    case NoAccess
    then show ?thesis using assms(1) by (simp add: Create_def)
  next
    case (Regular c)
    then show ?thesis
      using assms(1)
      by (auto simp add: Create_def PutUint16_def PutUint32_def file_Write_def
          const_defs replicate_14 le32_def)
  qed
  from c d w show ?thesis by simp
qed

theorem LinkType_code_values_witness:
  "Create NoEntry = Inr (Some created, None) \<and>
   length [0x3e, 0x4f, 1, 0, 1, 0, 0xff, 0x3f, 0, 0, 8, 0, 0, 0 :: byte] = 14 \<and>
   unmarshalFileHeader [0x3e, 0x4f, 1, 0, 1, 0, 0xff, 0x3f, 0, 0, 8, 0, 0, 0] =
     Inr (Some \<lparr>mx = 0x4f3e, majorVer = 1, minorVer = 1, snapLen = 16383, link = 0\<rparr>, 0, None) \<and>
   le32 (contents (rd created)) 10 = 4 \<and>
   le32 [0x3e, 0x4f, 1, 0, 1, 0, 0xff, 0x3f, 0, 0, 8, 0, 0, 0] 10 = 8"
proof -
  have e: "unmarshalFileHeader [0x3e, 0x4f, 1, 0, 1, 0, 0xff, 0x3f, 0, 0, 8, 0, 0, 0] =
     Inr (Some \<lparr>mx = 0x4f3e, majorVer = 1, minorVer = 1, snapLen = 16383, link = 0\<rparr>, 0, None)"
    by (simp add: unmarshalFileHeader_14 le32_def le16_def const_defs)
  have l: "length [0x3e, 0x4f, 1, 0, 1, 0, 0xff, 0x3f, 0, 0, 8, 0, 0, 0 :: byte] = 14"
    by simp
  show ?thesis
    using LinkType_code_values [OF Create_NoEntry l e] e Create_NoEntry
    by (simp add: le32_def)
qed


section \<open>Memory\<close>

lemma length_bytes: "length (bytes m s) = s_len s"
  by (simp add: bytes_def)

lemma bytes_nth: "i < s_len s \<Longrightarrow> bytes m s ! i = m (s_arr s) (s_off s + i)"
  by (simp add: bytes_def)

lemma bytes_mem_write_same:
  "n = length bs \<Longrightarrow> bytes (mem_write m a k bs) \<lparr>s_arr = a, s_off = k, s_len = n\<rparr> = bs"
  by (rule nth_equalityI) (simp_all add: bytes_def mem_write_def)



lemma mem_write_twice:
  "length bs \<le> length cs \<Longrightarrow> mem_write (mem_write m a k bs) a k cs = mem_write m a k cs"
  by (rule ext, rule ext) (simp add: mem_write_def)

lemma mem_write_Nil: "mem_write m a k [] = m"
  by (rule ext, rule ext) (auto simp add: mem_write_def)

section \<open>WritePacket: the overflow check\<close>

text \<open>
  Claim C6. When the payload length plus 10 exceeds the container's snap length,
  WritePacket fails, records the size-overflow classification, writes nothing to the
  store and leaves the tracked store size unchanged. Memory is untouched as well.
\<close>

theorem WritePacket_overflow:
  assumes "h pcap = Some fh"
    and "unat (snapLen fh) < s_len (Data p) + 10"
  shows "\<exists>pcap'. WritePacket m a p pcap =
           Inr (m, pcap', 0, Some (New ''cannot write packet to PCAP, because length of packet greater than snap length'')) \<and>
         LastError pcap' = ErrSizeOverflow \<and> rd pcap' = rd pcap \<and> fsize pcap' = fsize pcap"
proof -
  have "int (unat (snapLen fh)) < int (s_len (Data p)) + 10"
    using assms(2) by linarith
  then have "uint (snapLen fh) < int (s_len (Data p)) + 10"
    by (simp only: uint_nat)
  then show ?thesis
    using assms(1) by (simp add: WritePacket_def minPacketSize_def LastError_def)
qed

theorem WritePacket_overflow_witness:
  "Open (Regular [0x3e, 0x4f, 1, 0, 1, 0, 12, 0, 0, 0, 4, 0, 0, 0]) =
     Inr (Some \<lparr>h = Some \<lparr>mx = 0x4f3e, majorVer = 1, minorVer = 1, snapLen = 12, link = 0\<rparr>,
                rd = \<lparr>contents = [0x3e, 0x4f, 1, 0, 1, 0, 12, 0, 0, 0, 4, 0, 0, 0],
                      pos = 0, writable = False, fclosed = False\<rparr>,
                len = 0, offset = 14, isClosed = False, lasterr = 0, fsize = 14\<rparr>, None) \<and>
   bytes (mem_write zero_mem 2 0 [1, 2, 3]) \<lparr>s_arr = 2, s_off = 0, s_len = 3\<rparr> = [1, 2, 3] \<and>
   unat (12 :: uint32) < s_len \<lparr>s_arr = 2, s_off = 0, s_len = 3\<rparr> + 10 \<and>
   (\<exists>pcap'. WritePacket (mem_write zero_mem 2 0 [1, 2, 3]) 0
       \<lparr>Index = 4, PacketType = 2, Timestamp = 7, Len = 3,
        Data = \<lparr>s_arr = 2, s_off = 0, s_len = 3\<rparr>\<rparr>
       \<lparr>h = Some \<lparr>mx = 0x4f3e, majorVer = 1, minorVer = 1, snapLen = 12, link = 0\<rparr>,
        rd = \<lparr>contents = [0x3e, 0x4f, 1, 0, 1, 0, 12, 0, 0, 0, 4, 0, 0, 0],
              pos = 0, writable = False, fclosed = False\<rparr>,
        len = 0, offset = 14, isClosed = False, lasterr = 0, fsize = 14\<rparr> =
           Inr (mem_write zero_mem 2 0 [1, 2, 3], pcap', 0,
                Some (New ''cannot write packet to PCAP, because length of packet greater than snap length'')) \<and>
         LastError pcap' = ErrSizeOverflow \<and>
         rd pcap' = \<lparr>contents = [0x3e, 0x4f, 1, 0, 1, 0, 12, 0, 0, 0, 4, 0, 0, 0],
                      pos = 0, writable = False, fclosed = False\<rparr> \<and>
         fsize pcap' = 14)"
proof -
  have o: "Open (Regular [0x3e, 0x4f, 1, 0, 1, 0, 12, 0, 0, 0, 4, 0, 0, 0]) =
     Inr (Some \<lparr>h = Some \<lparr>mx = 0x4f3e, majorVer = 1, minorVer = 1, snapLen = 12, link = 0\<rparr>,
                rd = \<lparr>contents = [0x3e, 0x4f, 1, 0, 1, 0, 12, 0, 0, 0, 4, 0, 0, 0],
                      pos = 0, writable = False, fclosed = False\<rparr>,
                len = 0, offset = 14, isClosed = False, lasterr = 0, fsize = 14\<rparr>, None)"
    by (simp add: Open_def file_ReadAt_def unmarshalFileHeader_14
        le16_def le32_def const_defs)
  have b: "bytes (mem_write zero_mem 2 0 [1, 2, 3]) \<lparr>s_arr = 2, s_off = 0, s_len = 3\<rparr>
      = [1, 2, 3]"
    by (rule bytes_mem_write_same) simp
  show ?thesis
    using WritePacket_overflow [of
        "\<lparr>h = Some \<lparr>mx = 0x4f3e, majorVer = 1, minorVer = 1, snapLen = 12, link = 0\<rparr>,
          rd = \<lparr>contents = [0x3e, 0x4f, 1, 0, 1, 0, 12, 0, 0, 0, 4, 0, 0, 0],
                pos = 0, writable = False, fclosed = False\<rparr>,
          len = 0, offset = 14, isClosed = False, lasterr = 0, fsize = 14\<rparr>"
        "\<lparr>mx = 0x4f3e, majorVer = 1, minorVer = 1, snapLen = 12, link = 0\<rparr>"
        "\<lparr>Index = 4, PacketType = 2, Timestamp = 7, Len = 3,
          Data = \<lparr>s_arr = 2, s_off = 0, s_len = 3\<rparr>\<rparr>"
        "mem_write zero_mem 2 0 [1, 2, 3]" 0] o b
    by simp
qed

lemma encode_short_buffer:
  assumes "length xs < 10"
  shows "do {
           b \<leftarrow> store_byte xs 0 i;
           b \<leftarrow> store_byte b 1 t;
           b \<leftarrow> PutUint32 b 2 ts;
           PutUint32 b 6 l
         } = None"
  using assms
  by (auto simp add: store_byte_def PutUint32_def split: Option.bind_splits if_splits)

lemma length_bytes_lease: "length (bytes m (lease a n)) = n"
  by (simp add: length_bytes lease_def)

text \<open>
  Claim C10. The overflow check of WritePacket looks at the length of the payload slice
  only, not at the declared \<open>Len\<close>. A packet that passes the check and whose
  \<open>Len\<close> exceeds the maximum snap length minus 10 makes WritePacket panic instead
  of returning an error: the reslice of the pooled buffer to \<open>10 + Len\<close> bytes goes
  beyond its capacity; for the ten values of \<open>Len\<close> at which the 32-bit sum wraps,
  the slice is shorter than 10 and storing the header runs past its end. WritePacket
  is not total.
\<close>

theorem WritePacket_declared_Len_panics:
  assumes "h pcap = Some fh"
    and "s_len (Data p) + 10 \<le> unat (snapLen fh)"
    and "MaxSnapLength - 10 < unat (Len p)"
  shows "WritePacket m a p pcap =
           Inl (if unat (Len p) + 10 < 2 ^ 32 then SliceBoundsOutOfRange
                else IndexOutOfRange)"
proof -
  have no_overflow: "\<not> uint (snapLen fh) < int (s_len (Data p)) + 10"
  proof -
    have "int (s_len (Data p)) + 10 \<le> int (unat (snapLen fh))"
      using assms(2) by linarith
    then show ?thesis by (simp only: uint_nat)
  qed
  define n where "n = unat (10 + Len p)"
  have n: "n = (10 + unat (Len p)) mod 2 ^ 32"
    by (simp add: n_def unat_word_ariths)
  have bound: "unat (Len p) < 2 ^ 32"
    using unsigned_less [of "Len p", where ?'a = nat] by simp
  show ?thesis
  proof (cases "unat (Len p) + 10 < 2 ^ 32")
    case True
    then have "n = 10 + unat (Len p)" by (simp add: n)
    then have "MaxSnapLength < n" using assms(3) by (simp add: MaxSnapLength_def)
    then show ?thesis
      using assms(1) no_overflow True
      by (simp add: WritePacket_def minPacketSize_def n_def)
  next
    case False
    then have "n = 10 + unat (Len p) - 2 ^ 32"
      using bound by (simp add: n mod_if)
    then have small: "n < 10" using bound by linarith
    then have fits: "\<not> MaxSnapLength < n" by (simp add: MaxSnapLength_def)
    from small have "length (bytes m (lease a n)) < 10" by (simp add: length_bytes_lease)
    from encode_short_buffer [OF this] show ?thesis
      using assms(1) no_overflow fits False
      by (simp add: WritePacket_def minPacketSize_def n_def)
  qed
qed

theorem WritePacket_declared_Len_panics_witness:
  "h created = Some \<lparr>mx = 0x4f3e, majorVer = 1, minorVer = 0, snapLen = 16383, link = 4\<rparr> \<and>
   s_len \<lparr>s_arr = 2, s_off = 0, s_len = 0\<rparr> + 10 \<le> unat (16383 :: uint32) \<and>
   MaxSnapLength - 10 < unat (16374 :: uint32) \<and>
   WritePacket zero_mem 0
     \<lparr>Index = 4, PacketType = 2, Timestamp = 7, Len = 16374,
      Data = \<lparr>s_arr = 2, s_off = 0, s_len = 0\<rparr>\<rparr> created =
     Inl SliceBoundsOutOfRange"
proof -
  have a: "h created = Some \<lparr>mx = 0x4f3e, majorVer = 1, minorVer = 0, snapLen = 16383, link = 4\<rparr>"
    by (simp add: created_def)
  show ?thesis
    using WritePacket_declared_Len_panics [OF a, of
        "\<lparr>Index = 4, PacketType = 2, Timestamp = 7, Len = 16374,
          Data = \<lparr>s_arr = 2, s_off = 0, s_len = 0\<rparr>\<rparr>" zero_mem 0] a
    by (simp add: MaxSnapLength_def)
qed

section \<open>After Close\<close>

text \<open>
  Claim C3 says that after a successful Close every further operation fails with a
  closed error and none panics. Close sets the header pointer to nil, and WritePacket
  reads the snap length through that pointer before anything else: after Close it
  panics. ReadPacket gets the closed error of the file, and a second Close fails with
  its own closed error.
\<close>

theorem operations_after_Close:
  assumes "\<not> isClosed pcap"
  shows "WritePacket m a p (fst (Close pcap)) = Inl NilPointerDereference \<and>
         (\<exists>pcap'. ReadPacket m a q (fst (Close pcap)) =
                    Inr (m, pcap', q, 0, Some (PathError ''read'' ErrClosed))) \<and>
         Close (fst (Close pcap)) = (fst (Close pcap), Some (New ''file is already closed''))"
proof -
  obtain pcap' err where c: "Close pcap = (pcap', err)"
    by (cases "Close pcap")
  then have "h pcap' = None" and "isClosed pcap'" and "fclosed (rd pcap')"
    and "offset pcap' = 0"
    using assms
    by (auto simp add: Close_def file_Close_def Let_def split: if_splits)
  then have w: "WritePacket m a p pcap' = Inl NilPointerDereference"
    and r: "ReadPacket m a q pcap' =
              Inr (m, pcap'\<lparr>lasterr := ErrRead\<rparr>, q, 0, Some (PathError ''read'' ErrClosed))"
    and k: "Close pcap' = (pcap', Some (New ''file is already closed''))"
    by (simp_all add: Close_def WritePacket_def ReadPacket_def file_ReadAt_def lease_def
        minPacketSize_def mem_write_Nil)
  show ?thesis
    unfolding c fst_conv using w r k by simp
qed

theorem operations_after_Close_witness:
  "\<not> isClosed created \<and>
   Close created = (created\<lparr>h := None, len := 0, offset := 0, isClosed := True,
                      lasterr := ErrOk, fsize := 0,
                      rd := (rd created)\<lparr>fclosed := True\<rparr>\<rparr>, None) \<and>
   WritePacket zero_mem 0
     \<lparr>Index = 4, PacketType = 2, Timestamp = 7, Len = 0,
      Data = \<lparr>s_arr = 2, s_off = 0, s_len = 0\<rparr>\<rparr>
     (fst (Close created)) = Inl NilPointerDereference"
  using operations_after_Close [of created zero_mem 0
      "\<lparr>Index = 4, PacketType = 2, Timestamp = 7, Len = 0,
        Data = \<lparr>s_arr = 2, s_off = 0, s_len = 0\<rparr>\<rparr>"]
  by (simp add: created_def Close_def file_Close_def Let_def)

section \<open>The last-error field\<close>



lemma unmarshalPacketHeader_error:
  assumes "unmarshalPacketHeader b maxLen = Inr (ph, k, Some e)"
  shows "\<exists>m. e = New m"
  using assms
  by (auto simp add: unmarshalPacketHeader_def Let_def split: if_splits option.splits)

lemma bytes_zero_mem: "bytes zero_mem s = replicate (s_len s) 0"
  by (simp add: bytes_def zero_mem_def map_replicate_const)

lemma bytes_empty: "s_len s = 0 \<Longrightarrow> bytes m s = []"
  by (simp add: bytes_def)

lemma replicate_10: "replicate 10 x = [x, x, x, x, x, x, x, x, x, x]"
  by (simp add: numeral_eq_Suc)


lemma WritePacket_empty_payload:
  "WritePacket zero_mem 0
     \<lparr>Index = 4, PacketType = 2, Timestamp = 7, Len = 0,
      Data = \<lparr>s_arr = 2, s_off = 0, s_len = 0\<rparr>\<rparr>
     (created\<lparr>lasterr := c\<rparr>) =
   Inr (mem_write zero_mem 0 0 [4, 2, 7, 0, 0, 0, 0, 0, 0, 0],
        created\<lparr>lasterr := c,
          rd := \<lparr>contents = [0x3e, 0x4f, 1, 0, 0, 0, 0xff, 0x3f, 0, 0, 4, 0, 0, 0,
                              4, 2, 7, 0, 0, 0, 0, 0, 0, 0],
                  pos = 24, writable = True, fclosed = False\<rparr>,
          fsize := 24\<rparr>, 10, None)"
  by (simp add: WritePacket_def created_def bytes_zero_mem lease_def replicate_10
      store_byte_def PutUint32_def copy_at_def file_Write_def minPacketSize_def
      MaxSnapLength_def bytes_empty mem_write_twice Let_def)




section \<open>Reopening a container\<close>

lemma file_Write_keeps_prefix:
  assumes "file_Write f b = (f', n, None)"
    and "k \<le> pos f"
    and "k \<le> length (contents f)"
  shows "take k (contents f') = take k (contents f) \<and> k \<le> pos f' \<and> k \<le> length (contents f')"
  using assms
  by (auto simp add: file_Write_def Let_def split: if_splits)

lemma WritePacket_rd:
  assumes "WritePacket m a p pcap = Inr (m', pcap', n, None)"
  shows "\<exists>b. file_Write (rd pcap) b = (rd pcap', n, None)"
  using assms
  by (auto simp add: WritePacket_def Let_def
      split: option.splits if_splits prod.splits)

lemma WritePackets_keep_prefix:
  assumes "WritePackets m ps pcap = Some (m', pcap')"
    and "k \<le> pos (rd pcap)"
    and "k \<le> length (contents (rd pcap))"
  shows "take k (contents (rd pcap')) = take k (contents (rd pcap)) \<and>
         k \<le> length (contents (rd pcap'))"
  using assms
proof (induction ps arbitrary: m pcap)
  case Nil
  then show ?case by simp
next
  case (Cons x ps)
  obtain a p where x: "x = (a, p)" by (cases x)
  from Cons.prems(1) obtain m1 pcap1 n where
    w: "WritePacket m a p pcap = Inr (m1, pcap1, n, None)" and
    rest: "WritePackets m1 ps pcap1 = Some (m', pcap')"
    by (auto simp add: x split: sum.splits prod.splits option.splits)
  from WritePacket_rd [OF w] obtain b where
    "file_Write (rd pcap) b = (rd pcap1, n, None)" ..
  from file_Write_keeps_prefix [OF this Cons.prems(2) Cons.prems(3)]
  have 1: "take k (contents (rd pcap1)) = take k (contents (rd pcap))"
    and 2: "k \<le> pos (rd pcap1)" and 3: "k \<le> length (contents (rd pcap1))"
    by simp_all
  from Cons.IH [OF rest 2 3] 1 show ?case by simp
qed

lemma Create_header:
  assumes "Create path = Inr (Some pcap, None)"
  shows "take 14 (contents (rd pcap)) = [0x3e, 0x4f, 1, 0, 0, 0, 0xff, 0x3f, 0, 0, 4, 0, 0, 0]
         \<and> pos (rd pcap) = 14 \<and> 14 \<le> length (contents (rd pcap))"
proof (cases path)
  case NoEntry
  then have "pcap = created" using assms by (simp add: Create_NoEntry)
  then show ?thesis by (simp add: created_def)
next
  case NoAccess
  then show ?thesis using assms by (simp add: Create_def)
next
  case (Regular c)
  then show ?thesis
    using assms
    by (auto simp add: Create_def PutUint16_def PutUint32_def file_Write_def
        const_defs replicate_14)
qed

lemma Open_created_header:
  assumes "take 14 c = [0x3e, 0x4f, 1, 0, 0, 0, 0xff, 0x3f, 0, 0, 4, 0, 0, 0]"
    and "14 \<le> length c"
  shows "Open (Regular c) =
    Inr (None, Some (ParseError 4
      (New ''cannot parse PCAP file, invalid minor version (is nil)'')))"
proof -
  have r: "file_ReadAt \<lparr>contents = c, pos = 0, writable = False, fclosed = False\<rparr> 14 0
      = ([0x3e, 0x4f, 1, 0, 0, 0, 0xff, 0x3f, 0, 0, 4, 0, 0, 0], None)"
    using assms by (simp add: file_ReadAt_def)
  have u: "unmarshalFileHeader [0x3e, 0x4f, 1, 0, 0, 0, 0xff, 0x3f, 0, 0, 4, 0, 0, 0] =
      Inr (None, 4, Some (New ''cannot parse PCAP file, invalid minor version (is nil)''))"
    by (simp add: unmarshalFileHeader_14 le16_def lpcapmx_def)
  show ?thesis
    using assms(2) by (simp add: Open_def minFileSize_def r u)
qed

lemma WritePacket_created:
  "WritePacket zero_mem 0
     \<lparr>Index = 4, PacketType = 2, Timestamp = 7, Len = 0,
      Data = \<lparr>s_arr = 2, s_off = 0, s_len = 0\<rparr>\<rparr> created =
   Inr (mem_write zero_mem 0 0 [4, 2, 7, 0, 0, 0, 0, 0, 0, 0],
        created\<lparr>
          rd := \<lparr>contents = [0x3e, 0x4f, 1, 0, 0, 0, 0xff, 0x3f, 0, 0, 4, 0, 0, 0,
                              4, 2, 7, 0, 0, 0, 0, 0, 0, 0],
                  pos = 24, writable = True, fclosed = False\<rparr>,
          fsize := 24\<rparr>, 10, None)"
  using WritePacket_empty_payload [of 0] by (simp add: created_def)

text \<open>
  Claim C2 says that a container made by Create and filled with K packets can be
  reopened with Open and then iterated K times. Create writes the minor version
  \<open>MinorVer = 0\<close> into the header, and the file-header decoder rejects a zero minor
  version: for every K and every K packets written successfully, Open of the resulting
  store fails with the positioned parse error at offset 4.
\<close>

theorem Open_rejects_what_Create_wrote:
  assumes "Create path = Inr (Some pcap, None)"
    and "WritePackets m ps pcap = Some (m', pcap')"
  shows "Open (Regular (contents (rd pcap'))) =
    Inr (None, Some (ParseError 4
      (New ''cannot parse PCAP file, invalid minor version (is nil)'')))"
proof -
  from Create_header [OF assms(1)]
  have hd: "take 14 (contents (rd pcap)) = [0x3e, 0x4f, 1, 0, 0, 0, 0xff, 0x3f, 0, 0, 4, 0, 0, 0]"
    and p: "14 \<le> pos (rd pcap)" and l: "14 \<le> length (contents (rd pcap))"
    by simp_all
  from WritePackets_keep_prefix [OF assms(2) p l] hd
  show ?thesis by (intro Open_created_header) simp_all
qed

theorem Open_rejects_what_Create_wrote_witness:
  "Create NoEntry = Inr (Some created, None) \<and>
   WritePackets zero_mem
     [(0, \<lparr>Index = 4, PacketType = 2, Timestamp = 7, Len = 0,
            Data = \<lparr>s_arr = 2, s_off = 0, s_len = 0\<rparr>\<rparr>)]
     created =
     Some (mem_write zero_mem 0 0 [4, 2, 7, 0, 0, 0, 0, 0, 0, 0],
           created\<lparr>
          rd := \<lparr>contents = [0x3e, 0x4f, 1, 0, 0, 0, 0xff, 0x3f, 0, 0, 4, 0, 0, 0,
                              4, 2, 7, 0, 0, 0, 0, 0, 0, 0],
                  pos = 24, writable = True, fclosed = False\<rparr>,
          fsize := 24\<rparr>) \<and>
   Open (Regular [0x3e, 0x4f, 1, 0, 0, 0, 0xff, 0x3f, 0, 0, 4, 0, 0, 0,
                  4, 2, 7, 0, 0, 0, 0, 0, 0, 0]) =
    Inr (None, Some (ParseError 4
      (New ''cannot parse PCAP file, invalid minor version (is nil)'')))"
proof -
  have w: "WritePackets zero_mem
     [(0, \<lparr>Index = 4, PacketType = 2, Timestamp = 7, Len = 0,
            Data = \<lparr>s_arr = 2, s_off = 0, s_len = 0\<rparr>\<rparr>)]
     created =
     Some (mem_write zero_mem 0 0 [4, 2, 7, 0, 0, 0, 0, 0, 0, 0],
           created\<lparr>
          rd := \<lparr>contents = [0x3e, 0x4f, 1, 0, 0, 0, 0xff, 0x3f, 0, 0, 4, 0, 0, 0,
                              4, 2, 7, 0, 0, 0, 0, 0, 0, 0],
                  pos = 24, writable = True, fclosed = False\<rparr>,
          fsize := 24\<rparr>)"
    by (simp add: WritePacket_created)
  show ?thesis
    using Open_rejects_what_Create_wrote [OF Create_NoEntry w] w Create_NoEntry
    by simp
qed

section \<open>Writing a packet and reading it back\<close>






















end
